theory Spec2Isabelle
  imports Main "HOL-Library.Sublist"
begin

section \<open>The Go library functions the bridge calls\<close>

text \<open>
  Go strings are byte sequences; \<^typ>\<open>string\<close> is a list of 8-bit characters, so the
  two agree. \<open>strings.Index(s, substr)\<close> is the position of the first occurrence of
  \<open>substr\<close> in \<open>s\<close>, or \<open>-1\<close> (here \<open>None\<close>); \<open>strings.Contains\<close> is
  \<open>Index(s, substr) >= 0\<close>.
\<close>

fun Index :: "string \<Rightarrow> string \<Rightarrow> nat option" where
  "Index [] substr = (if substr = [] then Some 0 else None)"
| "Index (c # cs) substr =
     (if prefix substr (c # cs) then Some 0 else map_option Suc (Index cs substr))"

definition Contains :: "string \<Rightarrow> string \<Rightarrow> bool" where
  "Contains s substr = (Index s substr \<noteq> None)"

text \<open>\<open>strings.IndexByte(s, c)\<close>: the position of the first byte \<open>c\<close> in \<open>s\<close>.\<close>

fun IndexByte :: "string \<Rightarrow> char \<Rightarrow> nat option" where
  "IndexByte [] c = None"
| "IndexByte (x # xs) c = (if x = c then Some 0 else map_option Suc (IndexByte xs c))"

text \<open>
  \<open>strings.Split(s, sep)\<close> for a separator of one byte, which is how the bridge calls it
  (\<open>sep = "."\<close>). The library's loop finds the next separator, emits the text before it
  and goes on after it; when no separator is left the rest of the string is the last
  token.
\<close>

function Split :: "string \<Rightarrow> char \<Rightarrow> string list" where
  "Split s sep =
     (case IndexByte s sep of
        None \<Rightarrow> [s]
      | Some m \<Rightarrow> take m s # Split (drop (m + 1) s) sep)"
  by pat_completeness auto
termination
proof (relation "measure (\<lambda>(s, sep). length s)")
  show "wf (measure (\<lambda>(s, sep). length s))"
    by simp
next
  fix s :: string and sep m
  assume found: "IndexByte s sep = Some m"
  have "\<And>k. IndexByte s sep = Some k \<Longrightarrow> k < length s"
    by (induction s) (auto split: if_splits)
  with found have "m < length s"
    by blast
  then show "((drop (m + 1) s, sep), (s, sep)) \<in> measure (\<lambda>(s, sep). length s)"
    by simp
qed

declare Split.simps [simp del]

text \<open>
  The verb \<open>%v\<close> of package \<open>fmt\<close> on a value whose underlying type is \<open>int\<close> and
  that has no \<open>String\<close> method prints it in decimal, with a minus sign when negative.
\<close>

fun FormatUint :: "nat \<Rightarrow> string" where
  "FormatUint n =
     (if n < 10 then [''0123456789'' ! n]
      else FormatUint (n div 10) @ [''0123456789'' ! (n mod 10)])"

declare FormatUint.simps [simp del]

definition FormatInt :: "int \<Rightarrow> string" where
  "FormatInt i = (if i < 0 then CHR ''-'' # FormatUint (nat (- i)) else FormatUint (nat i))"

section \<open>Errors\<close>

text \<open>
  A Go \<open>error\<close> is an interface value. The bridge does three things with one: it
  compares it with the sentinel \<open>nats.ErrStreamNotFound\<close> (identity), it reads its
  message (\<open>err.Error()\<close>), and it wraps it (\<open>fmt.Errorf\<close> with \<open>%w\<close>). \<open>ErrorString\<close>
  is any other error value, given by its message (also what \<open>fmt.Errorf\<close> without
  \<open>%w\<close> returns); \<open>WrapError msg err\<close> is the result of \<open>fmt.Errorf\<close> with \<open>%w\<close>: the
  formatted message and the error it wraps.
\<close>

datatype error =
    ErrStreamNotFound
  | ErrorString string
  | WrapError string error

fun Error :: "error \<Rightarrow> string" where
  "Error ErrStreamNotFound = ''nats: stream not found''"
| "Error (ErrorString msg) = msg"
| "Error (WrapError msg err) = msg"

fun Unwrap :: "error \<Rightarrow> error option" where
  "Unwrap (WrapError msg err) = Some err"
| "Unwrap err = None"

section \<open>The data of nats.go that the bridge reads and writes\<close>

datatype AckPolicy = AckNonePolicy | AckAllPolicy | AckExplicitPolicy

text \<open>\<open>time.Duration\<close> counts nanoseconds; \<open>time.Second\<close> is \<open>1000000000\<close>.\<close>

type_synonym Duration = int

definition Second :: Duration where
  "Second = 1000000000"

text \<open>
  \<open>type SubscriptionMode int\<close>, with the two constants numbered by \<open>iota\<close>. Every
  integer is a value of the type. No arithmetic is done on a mode, so the width of
  Go's \<open>int\<close> plays no role and the unbounded \<^typ>\<open>int\<close> covers it.
\<close>

type_synonym SubscriptionMode = int

definition MultipleInstances :: SubscriptionMode where
  "MultipleInstances = 0"

definition SingleInstanceMessagesInOrder :: SubscriptionMode where
  "SingleInstanceMessagesInOrder = 1"

text \<open>
  \<open>nats.ConsumerConfig\<close>: the four fields the bridge names. The record is extensible,
  and the functions on it are stated for every extension, so that the fields of the
  library's struct that the bridge never names are present as the record's \<open>more\<close> part.
\<close>

record ConsumerConfig =
  Durable :: string
  AckPolicy :: AckPolicy
  AckWait :: Duration
  MaxAckPending :: int

record StreamConfig =
  Name :: string

record StreamInfo =
  Config :: StreamConfig

record ConsumerInfo =
  Config :: ConsumerConfig

section \<open>The JetStream context\<close>

text \<open>
  \<open>nats.JetStreamContext\<close> is an interface of the client library; the broker behind it
  is not part of this repository. It is a parameter of the model: a record of the five
  methods the bridge calls, each a function on a broker state \<open>'b\<close> that returns the
  method's result (\<open>Inl\<close> the error) and the next broker state. A method returns either
  an error or a value, never both \<open>nil\<close>. \<open>PullSubscribe\<close> takes the subject, the
  durable name and the pair given to \<open>nats.Bind\<close>.
\<close>

record ('b, 'sub) JetStreamContext =
  StreamInfo :: "string \<Rightarrow> 'b \<Rightarrow> (error + StreamInfo) \<times> 'b"
  AddStream :: "StreamConfig \<Rightarrow> 'b \<Rightarrow> (error + StreamInfo) \<times> 'b"
  ConsumerInfo :: "string \<Rightarrow> string \<Rightarrow> 'b \<Rightarrow> (error + ConsumerInfo) \<times> 'b"
  AddConsumer :: "string \<Rightarrow> ConsumerConfig \<Rightarrow> 'b \<Rightarrow> (error + ConsumerInfo) \<times> 'b"
  PullSubscribe :: "string \<Rightarrow> string \<Rightarrow> string \<times> string \<Rightarrow> 'b \<Rightarrow> (error + 'sub) \<times> 'b"

text \<open>
  The bridge holds the context. Its connection is used by \<open>Servers\<close> and \<open>Drain\<close> only
  and its logger only writes debug lines; neither is modelled.
\<close>

record ('b, 'sub) natsBridge =
  jetStreamContext :: "('b, 'sub) JetStreamContext"

datatype 'sub natsSubscription = natsSubscription (streamSubscription: 'sub)

text \<open>
  The state threaded through the bridge's methods is the broker state together with the
  list of the calls made on the context so far, oldest first. The list is how a theorem
  says that a method was, or was not, called.
\<close>

datatype call =
    StreamInfoCall string
  | AddStreamCall StreamConfig
  | ConsumerInfoCall string string
  | AddConsumerCall string ConsumerConfig
  | PullSubscribeCall string string "string \<times> string"

record 'b world =
  broker :: 'b
  calls :: "call list"

definition invoke :: "call \<Rightarrow> ('b \<Rightarrow> 'r \<times> 'b) \<Rightarrow> 'b world \<Rightarrow> 'r \<times> 'b world" where
  "invoke k m w =
     (case m (broker w) of (r, b) \<Rightarrow> (r, \<lparr>broker = b, calls = calls w @ [k]\<rparr>))"

section \<open>The bridge\<close>

definition GetOrAddStream ::
  "('b, 'sub) natsBridge \<Rightarrow> StreamConfig \<Rightarrow> 'b world \<Rightarrow> (error + StreamInfo) \<times> 'b world" where
  "GetOrAddStream c streamConfig w =
     (case invoke (StreamInfoCall (Name streamConfig))
             (StreamInfo (jetStreamContext c) (Name streamConfig)) w of
        (Inl err, w1) \<Rightarrow>
          if err \<noteq> ErrStreamNotFound then
            (Inl (WrapError (''NATS streamInfo-info could not be fetched: '' @ Error err) err), w1)
          else
            (case invoke (AddStreamCall streamConfig)
                    (AddStream (jetStreamContext c) streamConfig) w1 of
               (Inl err2, w2) \<Rightarrow>
                 (Inl (WrapError (''streamInfo '' @ Name streamConfig
                                    @ '' could not be created: '' @ Error err2) err2), w2)
             | (Inr streamInfo, w2) \<Rightarrow> (Inr streamInfo, w2))
      | (Inr streamInfo, w1) \<Rightarrow> (Inr streamInfo, w1))"

definition patchConsumerConfig ::
  "'a ConsumerConfig_scheme \<Rightarrow> SubscriptionMode \<Rightarrow> 'a ConsumerConfig_scheme" where
  "patchConsumerConfig config mode =
     (if mode = MultipleInstances then config\<lparr>MaxAckPending := 0\<rparr>
      else if mode = SingleInstanceMessagesInOrder then config\<lparr>MaxAckPending := 1\<rparr>
      else config\<lparr>MaxAckPending := 0\<rparr>)"

definition getOrAddConsumer ::
  "('b, 'sub) natsBridge \<Rightarrow> string \<Rightarrow> ConsumerConfig \<Rightarrow> 'b world
     \<Rightarrow> (error + ConsumerInfo) \<times> 'b world" where
  "getOrAddConsumer c streamName consumerConfig w =
     (case invoke (ConsumerInfoCall streamName (Durable consumerConfig))
             (ConsumerInfo (jetStreamContext c) streamName (Durable consumerConfig)) w of
        (Inl err, w1) \<Rightarrow>
          if \<not> Contains (Error err) ''consumer not found'' then (Inl err, w1)
          else
            (case invoke (AddConsumerCall streamName consumerConfig)
                    (AddConsumer (jetStreamContext c) streamName consumerConfig) w1 of
               (Inl err2, w2) \<Rightarrow>
                 (Inl (WrapError (''consumer '' @ Durable consumerConfig
                                    @ '' could not be added to stream '' @ streamName
                                    @ '': '' @ Error err2) err2), w2)
             | (Inr ci, w2) \<Rightarrow> (Inr ci, w2))
      | (Inr ci, w1) \<Rightarrow>
          if MaxAckPending (ConsumerInfo.Config ci) \<noteq> MaxAckPending consumerConfig then
            (Inl (ErrorString (''consumer '' @ Durable consumerConfig
                                 @ '' SubscriptionMode has changed. ''
                                 @ ''Please use the existing SubscriptionMode=''
                                 @ FormatInt (MaxAckPending (ConsumerInfo.Config ci))
                                 @ '' or delete consumer'')), w1)
          else (Inr ci, w1))"

text \<open>
  \<open>CreateSubscription\<close>. Indexing the result of \<open>Split\<close> with \<open>0\<close> panics on an empty
  slice: the method then returns nothing, which is \<open>None\<close>. The struct literal leaves
  \<open>MaxAckPending\<close> at its zero value before \<open>patchConsumerConfig\<close> sets it.
\<close>

definition CreateSubscription ::
  "('b, 'sub) natsBridge \<Rightarrow> string \<Rightarrow> string \<Rightarrow> SubscriptionMode \<Rightarrow> 'b world
     \<Rightarrow> ((error + 'sub natsSubscription) \<times> 'b world) option" where
  "CreateSubscription c subject consumerName mode w =
     (case Split subject (CHR ''.'') of
        [] \<Rightarrow> None
      | streamName # _ \<Rightarrow>
          (let config = patchConsumerConfig
                 \<lparr>Durable = consumerName, AckPolicy = AckExplicitPolicy,
                  AckWait = Second * 30, MaxAckPending = 0\<rparr> mode
           in case getOrAddConsumer c streamName config w of
                (Inl err, w1) \<Rightarrow> Some (Inl err, w1)
              | (Inr _, w1) \<Rightarrow>
                  (case invoke (PullSubscribeCall subject consumerName (streamName, consumerName))
                          (PullSubscribe (jetStreamContext c) subject consumerName
                             (streamName, consumerName)) w1 of
                     (Inl err, w2) \<Rightarrow> Some (Inl err, w2)
                   | (Inr sub, w2) \<Rightarrow> Some (Inr (natsSubscription sub), w2))))"

section \<open>What a run did to the broker\<close>

text \<open>The calls made between an earlier state and a later one, oldest first.\<close>

definition issued :: "'b world \<Rightarrow> 'b world \<Rightarrow> call list" where
  "issued w w' = drop (length (calls w)) (calls w')"

text \<open>The stream a call is addressed to; for \<open>PullSubscribe\<close>, the stream it binds.\<close>

fun callStream :: "call \<Rightarrow> string" where
  "callStream (StreamInfoCall name) = name"
| "callStream (AddStreamCall streamConfig) = Name streamConfig"
| "callStream (ConsumerInfoCall streamName consumerName) = streamName"
| "callStream (AddConsumerCall streamName consumerConfig) = streamName"
| "callStream (PullSubscribeCall subject consumerName bind) = fst bind"

fun isPullSubscribe :: "call \<Rightarrow> bool" where
  "isPullSubscribe (PullSubscribeCall subject consumerName bind) = True"
| "isPullSubscribe k = False"

fun isAddConsumer :: "call \<Rightarrow> bool" where
  "isAddConsumer (AddConsumerCall streamName consumerConfig) = True"
| "isAddConsumer k = False"


section \<open>Implementations of the context, for running the bridge\<close>

text \<open>
  An in-memory broker that stores what it is given: streams by name and consumers by
  stream and durable name, the newest first. A lookup of an absent stream returns the
  sentinel, a lookup of an absent consumer the library's \<open>nats: consumer not found\<close>.
\<close>

record memBroker =
  streams :: "(string \<times> StreamInfo) list"
  consumers :: "((string \<times> string) \<times> ConsumerInfo) list"

definition memJetStream :: "(memBroker, string \<times> string) JetStreamContext" where
  "memJetStream =
     \<lparr>StreamInfo = (\<lambda>name b.
        (case map_of (streams b) name of
           None \<Rightarrow> Inl ErrStreamNotFound
         | Some si \<Rightarrow> Inr si, b)),
      AddStream = (\<lambda>cfg b.
        (Inr \<lparr>StreamInfo.Config = cfg\<rparr>,
         b\<lparr>streams := (Name cfg, \<lparr>StreamInfo.Config = cfg\<rparr>) # streams b\<rparr>)),
      ConsumerInfo = (\<lambda>stream name b.
        (case map_of (consumers b) (stream, name) of
           None \<Rightarrow> Inl (ErrorString ''nats: consumer not found'')
         | Some ci \<Rightarrow> Inr ci, b)),
      AddConsumer = (\<lambda>stream cfg b.
        (Inr \<lparr>ConsumerInfo.Config = cfg\<rparr>,
         b\<lparr>consumers := ((stream, Durable cfg), \<lparr>ConsumerInfo.Config = cfg\<rparr>) # consumers b\<rparr>)),
      PullSubscribe = (\<lambda>subject durable bind b. (Inr (subject, durable), b))\<rparr>"

text \<open>A broker that cannot be reached: every call fails with a transport error.\<close>

definition downJetStream :: "(unit, unit) JetStreamContext" where
  "downJetStream =
     \<lparr>StreamInfo = (\<lambda>name b. (Inl (ErrorString ''nats: timeout''), b)),
      AddStream = (\<lambda>cfg b. (Inl (ErrorString ''nats: timeout''), b)),
      ConsumerInfo = (\<lambda>stream name b. (Inl (ErrorString ''nats: timeout''), b)),
      AddConsumer = (\<lambda>stream cfg b. (Inl (ErrorString ''nats: timeout''), b)),
      PullSubscribe = (\<lambda>subject durable bind b. (Inl (ErrorString ''nats: timeout''), b))\<rparr>"


section \<open>Facts about the library functions and the call list\<close>

lemma IndexByte_None: "(IndexByte s c = None) = (c \<notin> set s)"
  by (induction s) auto

lemma IndexByte_Some: "IndexByte s c = Some m \<Longrightarrow> take m s = takeWhile (\<lambda>x. x \<noteq> c) s"
  by (induction s arbitrary: m) (auto split: if_splits)

lemma Split_first: "\<exists>rest. Split s sep = takeWhile (\<lambda>x. x \<noteq> sep) s # rest"
proof (cases "IndexByte s sep")
  case None
  then have "sep \<notin> set s" by (simp add: IndexByte_None)
  then have whole: "takeWhile (\<lambda>x. x \<noteq> sep) s = s" by (induction s) auto
  show ?thesis by (subst Split.simps) (simp add: None whole)
next
  case (Some m)
  then show ?thesis by (simp add: Split.simps IndexByte_Some)
qed


lemma Contains_sublist: "Contains s substr = sublist substr s"
  unfolding Contains_def
  by (induction s) (auto simp: sublist_Cons_right)

lemma invoke_eq:
  "invoke k m w = (fst (m (broker w)), \<lparr>broker = snd (m (broker w)), calls = calls w @ [k]\<rparr>)"
  by (simp add: invoke_def split: prod.splits)

lemma patch_MaxAckPending:
  "MaxAckPending (patchConsumerConfig config mode) =
     (if mode = SingleInstanceMessagesInOrder then 1 else 0)"
  by (simp add: patchConsumerConfig_def MultipleInstances_def SingleInstanceMessagesInOrder_def)

lemma patch_Durable: "Durable (patchConsumerConfig config mode) = Durable config"
  by (simp add: patchConsumerConfig_def)

subsection \<open>The three ways through \<open>getOrAddConsumer\<close>\<close>

lemma getOrAddConsumer_found:
  assumes "ConsumerInfo (jetStreamContext c) streamName (Durable config) (broker w) = (Inr ci, b1)"
  shows "getOrAddConsumer c streamName config w =
     (if MaxAckPending (ConsumerInfo.Config ci) \<noteq> MaxAckPending config
      then Inl (ErrorString (''consumer '' @ Durable config
                   @ '' SubscriptionMode has changed. ''
                   @ ''Please use the existing SubscriptionMode=''
                   @ FormatInt (MaxAckPending (ConsumerInfo.Config ci))
                   @ '' or delete consumer''))
      else Inr ci,
      \<lparr>broker = b1, calls = calls w @ [ConsumerInfoCall streamName (Durable config)]\<rparr>)"
  using assms by (simp add: getOrAddConsumer_def invoke_eq)

lemma getOrAddConsumer_lookup_failed:
  assumes "ConsumerInfo (jetStreamContext c) streamName (Durable config) (broker w) = (Inl err, b1)"
    and "\<not> Contains (Error err) ''consumer not found''"
  shows "getOrAddConsumer c streamName config w =
     (Inl err, \<lparr>broker = b1, calls = calls w @ [ConsumerInfoCall streamName (Durable config)]\<rparr>)"
  using assms by (simp add: getOrAddConsumer_def invoke_eq)

lemma getOrAddConsumer_not_found:
  assumes "ConsumerInfo (jetStreamContext c) streamName (Durable config) (broker w) = (Inl err, b1)"
    and "Contains (Error err) ''consumer not found''"
    and "AddConsumer (jetStreamContext c) streamName config b1 = (r, b2)"
  shows "getOrAddConsumer c streamName config w =
     (case r of
        Inl err2 \<Rightarrow> Inl (WrapError (''consumer '' @ Durable config
                       @ '' could not be added to stream '' @ streamName
                       @ '': '' @ Error err2) err2)
      | Inr ci \<Rightarrow> Inr ci,
      \<lparr>broker = b2, calls = calls w @ [ConsumerInfoCall streamName (Durable config),
                                       AddConsumerCall streamName config]\<rparr>)"
  using assms by (simp add: getOrAddConsumer_def invoke_eq split: sum.splits)

lemma getOrAddConsumer_calls:
  "issued w (snd (getOrAddConsumer c streamName config w)) = [ConsumerInfoCall streamName (Durable config)]
   \<or> issued w (snd (getOrAddConsumer c streamName config w)) =
        [ConsumerInfoCall streamName (Durable config), AddConsumerCall streamName config]"
  by (simp add: getOrAddConsumer_def invoke_eq issued_def split: sum.splits prod.splits)

subsection \<open>\<open>CreateSubscription\<close> with the stream name and the configuration worked out\<close>

lemma CreateSubscription_eq:
  "CreateSubscription c subject consumerName mode w =
     Some (let streamName = takeWhile (\<lambda>x. x \<noteq> CHR ''.'') subject;
               config = \<lparr>Durable = consumerName, AckPolicy = AckExplicitPolicy,
                         AckWait = 30000000000,
                         MaxAckPending = (if mode = SingleInstanceMessagesInOrder then 1 else 0)\<rparr>
           in case getOrAddConsumer c streamName config w of
                (Inl err, w1) \<Rightarrow> (Inl err, w1)
              | (Inr ci, w1) \<Rightarrow>
                  (case invoke (PullSubscribeCall subject consumerName (streamName, consumerName))
                          (PullSubscribe (jetStreamContext c) subject consumerName
                             (streamName, consumerName)) w1 of
                     (Inl err, w2) \<Rightarrow> (Inl err, w2)
                   | (Inr sub, w2) \<Rightarrow> (Inr (natsSubscription sub), w2)))"
proof -
  obtain rest where "Split subject (CHR ''.'') = takeWhile (\<lambda>x. x \<noteq> CHR ''.'') subject # rest"
    using Split_first by blast
  moreover have "patchConsumerConfig
                 \<lparr>Durable = consumerName, AckPolicy = AckExplicitPolicy,
                  AckWait = Second * 30, MaxAckPending = 0\<rparr> mode
     = \<lparr>Durable = consumerName, AckPolicy = AckExplicitPolicy,
                         AckWait = 30000000000,
                         MaxAckPending = (if mode = SingleInstanceMessagesInOrder then 1 else 0)\<rparr>"
    by (simp add: patchConsumerConfig_def Second_def MultipleInstances_def SingleInstanceMessagesInOrder_def)
  ultimately show ?thesis
    by (simp add: CreateSubscription_def Let_def split: prod.splits sum.splits)
qed

section \<open>The subscription-mode policy\<close>

text \<open>
  C3. The value \<open>patchConsumerConfig\<close> writes into \<open>MaxAckPending\<close> is \<open>0\<close> for
  \<open>MultipleInstances\<close>, \<open>1\<close> for \<open>SingleInstanceMessagesInOrder\<close> and \<open>0\<close> for every
  other integer; it is defined for every mode (there is no error result) and depends on
  the mode alone, not on the configuration it is written into.
\<close>

theorem patchConsumerConfig_policy:
  "MaxAckPending (patchConsumerConfig config MultipleInstances) = 0
   \<and> MaxAckPending (patchConsumerConfig config SingleInstanceMessagesInOrder) = 1
   \<and> (mode \<noteq> MultipleInstances \<and> mode \<noteq> SingleInstanceMessagesInOrder
        \<longrightarrow> MaxAckPending (patchConsumerConfig config mode) = 0)
   \<and> MaxAckPending (patchConsumerConfig config mode)
        = MaxAckPending (patchConsumerConfig config' mode)"
  by (simp add: patchConsumerConfig_def MultipleInstances_def SingleInstanceMessagesInOrder_def)

theorem patchConsumerConfig_policy_witness:
  "(7 :: SubscriptionMode) \<noteq> MultipleInstances \<and> 7 \<noteq> SingleInstanceMessagesInOrder
   \<and> MaxAckPending (patchConsumerConfig
        \<lparr>Durable = ''C'', AckPolicy = AckExplicitPolicy, AckWait = 30000000000,
         MaxAckPending = 5\<rparr> 7) = 0"
  using patchConsumerConfig_policy
    [of "\<lparr>Durable = ''C'', AckPolicy = AckExplicitPolicy, AckWait = 30000000000,
          MaxAckPending = 5\<rparr>" 7
        "\<lparr>Durable = ''C'', AckPolicy = AckExplicitPolicy, AckWait = 30000000000,
          MaxAckPending = 5\<rparr>"]
  by (simp add: MultipleInstances_def SingleInstanceMessagesInOrder_def)

text \<open>
  C9. \<open>patchConsumerConfig\<close> changes the field \<open>MaxAckPending\<close> and nothing else: the
  durable name, the ack policy, the ack wait and every further field of the
  configuration (the record's \<open>more\<close> part) are as they were.
\<close>

theorem patchConsumerConfig_frame:
  "Durable (patchConsumerConfig config mode) = Durable config
   \<and> AckPolicy (patchConsumerConfig config mode) = AckPolicy config
   \<and> AckWait (patchConsumerConfig config mode) = AckWait config
   \<and> ConsumerConfig.more (patchConsumerConfig config mode) = ConsumerConfig.more config
   \<and> patchConsumerConfig config mode
        = config\<lparr>MaxAckPending := MaxAckPending (patchConsumerConfig config mode)\<rparr>"
  by (simp add: patchConsumerConfig_def)

section \<open>The stream a subject belongs to\<close>

lemma before_first_dot:
  "sep \<notin> set (takeWhile (\<lambda>x. x \<noteq> sep) s)
   \<and> (\<exists>rest. s = takeWhile (\<lambda>x. x \<noteq> sep) s @ rest \<and> (rest = [] \<or> hd rest = sep))"
proof
  show "sep \<notin> set (takeWhile (\<lambda>x. x \<noteq> sep) s)"
    by (auto dest: set_takeWhileD)
  have "s = takeWhile (\<lambda>x. x \<noteq> sep) s @ dropWhile (\<lambda>x. x \<noteq> sep) s"
    by simp
  moreover have "dropWhile (\<lambda>x. x \<noteq> sep) s = [] \<or> hd (dropWhile (\<lambda>x. x \<noteq> sep) s) = sep"
    using hd_dropWhile [of "\<lambda>x. x \<noteq> sep" s] by auto
  ultimately show "\<exists>rest. s = takeWhile (\<lambda>x. x \<noteq> sep) s @ rest \<and> (rest = [] \<or> hd rest = sep)"
    by blast
qed

lemma CreateSubscription_calls:
  "\<exists>r w'. CreateSubscription c subject consumerName mode w = Some (r, w')
     \<and> (\<exists>tl. issued w w' = ConsumerInfoCall (takeWhile (\<lambda>x. x \<noteq> CHR ''.'') subject) consumerName # tl
          \<and> set tl \<subseteq> {AddConsumerCall (takeWhile (\<lambda>x. x \<noteq> CHR ''.'') subject)
                         \<lparr>Durable = consumerName, AckPolicy = AckExplicitPolicy,
                          AckWait = 30000000000,
                          MaxAckPending = (if mode = SingleInstanceMessagesInOrder then 1 else 0)\<rparr>,
                       PullSubscribeCall subject consumerName
                         (takeWhile (\<lambda>x. x \<noteq> CHR ''.'') subject, consumerName)})"
  by (simp add: CreateSubscription_eq Let_def getOrAddConsumer_def invoke_eq issued_def
      split: sum.splits prod.splits)

text \<open>
  C7. For every subject, \<open>CreateSubscription\<close> returns (indexing the split never
  panics), and every call it makes on the broker (the consumer lookup, the consumer
  creation, the pull-subscribe with its binding) names as stream the text of the subject
  before its first \<open>.\<close>: the longest prefix without a \<open>.\<close>, which is followed in the
  subject by a \<open>.\<close> or by nothing. This text is the first token of the split. The
  subject \<open>orders.created\<close> is bound to the stream \<open>orders\<close>.
\<close>

theorem CreateSubscription_streamName:
  "\<exists>r w'. CreateSubscription c subject consumerName mode w = Some (r, w')
     \<and> issued w w' \<noteq> []
     \<and> (\<forall>k \<in> set (issued w w'). callStream k = takeWhile (\<lambda>x. x \<noteq> CHR ''.'') subject)
     \<and> (\<exists>rest. Split subject (CHR ''.'') = takeWhile (\<lambda>x. x \<noteq> CHR ''.'') subject # rest)
     \<and> CHR ''.'' \<notin> set (takeWhile (\<lambda>x. x \<noteq> CHR ''.'') subject)
     \<and> (\<exists>rest. subject = takeWhile (\<lambda>x. x \<noteq> CHR ''.'') subject @ rest
            \<and> (rest = [] \<or> hd rest = CHR ''.''))"
proof -
  obtain r w' tl where run: "CreateSubscription c subject consumerName mode w = Some (r, w')"
    and tr: "issued w w' = ConsumerInfoCall (takeWhile (\<lambda>x. x \<noteq> CHR ''.'') subject) consumerName # tl"
    and tl: "set tl \<subseteq> {AddConsumerCall (takeWhile (\<lambda>x. x \<noteq> CHR ''.'') subject)
                         \<lparr>Durable = consumerName, AckPolicy = AckExplicitPolicy,
                          AckWait = 30000000000,
                          MaxAckPending = (if mode = SingleInstanceMessagesInOrder then 1 else 0)\<rparr>,
                       PullSubscribeCall subject consumerName
                         (takeWhile (\<lambda>x. x \<noteq> CHR ''.'') subject, consumerName)}"
    using CreateSubscription_calls [of c subject consumerName mode w] by blast
  have "\<forall>k \<in> set tl. callStream k = takeWhile (\<lambda>x. x \<noteq> CHR ''.'') subject"
    using tl by auto
  then have "issued w w' \<noteq> []
      \<and> (\<forall>k \<in> set (issued w w'). callStream k = takeWhile (\<lambda>x. x \<noteq> CHR ''.'') subject)"
    using tr by simp
  with run show ?thesis
    using Split_first [of subject "CHR ''.''"] before_first_dot [of "CHR ''.''" subject]
    by blast
qed

theorem CreateSubscription_streamName_witness:
  "CreateSubscription \<lparr>jetStreamContext = memJetStream\<rparr> ''orders.created'' ''C''
       SingleInstanceMessagesInOrder \<lparr>broker = \<lparr>streams = [], consumers = []\<rparr>, calls = []\<rparr>
     = Some (Inr (natsSubscription (''orders.created'', ''C'')),
         \<lparr>broker = \<lparr>streams = [],
                     consumers = [((''orders'', ''C''),
                        \<lparr>ConsumerInfo.Config = \<lparr>Durable = ''C'', AckPolicy = AckExplicitPolicy,
                           AckWait = 30000000000, MaxAckPending = 1\<rparr>\<rparr>)]\<rparr>,
          calls = [ConsumerInfoCall ''orders'' ''C'',
                   AddConsumerCall ''orders'' \<lparr>Durable = ''C'', AckPolicy = AckExplicitPolicy,
                           AckWait = 30000000000, MaxAckPending = 1\<rparr>,
                   PullSubscribeCall ''orders.created'' ''C'' (''orders'', ''C'')]\<rparr>)
   \<and> map callStream [ConsumerInfoCall ''orders'' ''C'',
                   AddConsumerCall ''orders'' \<lparr>Durable = ''C'', AckPolicy = AckExplicitPolicy,
                           AckWait = 30000000000, MaxAckPending = 1\<rparr>,
                   PullSubscribeCall ''orders.created'' ''C'' (''orders'', ''C'')]
        = [''orders'', ''orders'', ''orders'']
   \<and> Split ''orders.created'' (CHR ''.'') = [''orders'', ''created'']"
  using CreateSubscription_streamName [of "\<lparr>jetStreamContext = memJetStream\<rparr>" "''orders.created''" "''C''"
       SingleInstanceMessagesInOrder "\<lparr>broker = \<lparr>streams = [], consumers = []\<rparr>, calls = []\<rparr>"]
  by (simp add: CreateSubscription_eq Let_def getOrAddConsumer_def invoke_eq issued_def
       memJetStream_def Contains_def SingleInstanceMessagesInOrder_def Split.simps)



section \<open>The consumer configuration of a subscription\<close>

text \<open>
  C8. Whatever the subject, the consumer name and the mode, \<open>CreateSubscription\<close> hands
  to \<open>getOrAddConsumer\<close> a configuration with the explicit ack policy and an ack wait of
  thirty seconds (\<open>30000000000\<close> nanoseconds), and every consumer it asks the broker to
  create carries these two values. Neither is a parameter of the method.
\<close>

theorem CreateSubscription_config:
  "\<exists>r w'. CreateSubscription c subject consumerName mode w = Some (r, w')
     \<and> (r, w') =
        (case getOrAddConsumer c (takeWhile (\<lambda>x. x \<noteq> CHR ''.'') subject)
                \<lparr>Durable = consumerName, AckPolicy = AckExplicitPolicy,
                 AckWait = 30 * Second,
                 MaxAckPending = (if mode = SingleInstanceMessagesInOrder then 1 else 0)\<rparr> w of
           (Inl err, w1) \<Rightarrow> (Inl err, w1)
         | (Inr ci, w1) \<Rightarrow>
             (case invoke (PullSubscribeCall subject consumerName
                              (takeWhile (\<lambda>x. x \<noteq> CHR ''.'') subject, consumerName))
                     (PullSubscribe (jetStreamContext c) subject consumerName
                        (takeWhile (\<lambda>x. x \<noteq> CHR ''.'') subject, consumerName)) w1 of
                (Inl err, w2) \<Rightarrow> (Inl err, w2)
              | (Inr sub, w2) \<Rightarrow> (Inr (natsSubscription sub), w2)))
     \<and> (\<forall>streamName config. AddConsumerCall streamName config \<in> set (issued w w') \<longrightarrow>
            AckPolicy config = AckExplicitPolicy \<and> AckWait config = 30 * Second
            \<and> AckWait config = 30000000000)"
proof -
  obtain r w' tl where run: "CreateSubscription c subject consumerName mode w = Some (r, w')"
    and tr: "issued w w' = ConsumerInfoCall (takeWhile (\<lambda>x. x \<noteq> CHR ''.'') subject) consumerName # tl"
    and tl: "set tl \<subseteq> {AddConsumerCall (takeWhile (\<lambda>x. x \<noteq> CHR ''.'') subject)
                         \<lparr>Durable = consumerName, AckPolicy = AckExplicitPolicy,
                          AckWait = 30000000000,
                          MaxAckPending = (if mode = SingleInstanceMessagesInOrder then 1 else 0)\<rparr>,
                       PullSubscribeCall subject consumerName
                         (takeWhile (\<lambda>x. x \<noteq> CHR ''.'') subject, consumerName)}"
    using CreateSubscription_calls [of c subject consumerName mode w] by blast
  have adds: "\<forall>streamName config. AddConsumerCall streamName config \<in> set (issued w w') \<longrightarrow>
            AckPolicy config = AckExplicitPolicy \<and> AckWait config = 30 * Second
            \<and> AckWait config = 30000000000"
    using tl unfolding tr by (auto simp: Second_def)
  from run have "(r, w') =
        (case getOrAddConsumer c (takeWhile (\<lambda>x. x \<noteq> CHR ''.'') subject)
                \<lparr>Durable = consumerName, AckPolicy = AckExplicitPolicy,
                 AckWait = 30 * Second,
                 MaxAckPending = (if mode = SingleInstanceMessagesInOrder then 1 else 0)\<rparr> w of
           (Inl err, w1) \<Rightarrow> (Inl err, w1)
         | (Inr ci, w1) \<Rightarrow>
             (case invoke (PullSubscribeCall subject consumerName
                              (takeWhile (\<lambda>x. x \<noteq> CHR ''.'') subject, consumerName))
                     (PullSubscribe (jetStreamContext c) subject consumerName
                        (takeWhile (\<lambda>x. x \<noteq> CHR ''.'') subject, consumerName)) w1 of
                (Inl err, w2) \<Rightarrow> (Inl err, w2)
              | (Inr sub, w2) \<Rightarrow> (Inr (natsSubscription sub), w2)))"
    by (simp add: CreateSubscription_eq Let_def Second_def)
  with run adds show ?thesis
    by blast
qed

theorem CreateSubscription_config_witness:
  "AddConsumerCall ''orders'' \<lparr>Durable = ''C'', AckPolicy = AckExplicitPolicy,
       AckWait = 30000000000, MaxAckPending = 1\<rparr>
     \<in> set (issued \<lparr>broker = \<lparr>streams = [], consumers = []\<rparr>, calls = []\<rparr>
          (snd (the (CreateSubscription \<lparr>jetStreamContext = memJetStream\<rparr> ''orders.created'' ''C''
             SingleInstanceMessagesInOrder \<lparr>broker = \<lparr>streams = [], consumers = []\<rparr>, calls = []\<rparr>))))
   \<and> AckPolicy \<lparr>Durable = ''C'', AckPolicy = AckExplicitPolicy,
       AckWait = 30000000000, MaxAckPending = 1\<rparr> = AckExplicitPolicy
   \<and> AckWait \<lparr>Durable = ''C'', AckPolicy = AckExplicitPolicy,
       AckWait = 30000000000, MaxAckPending = 1\<rparr> = 30 * Second"
  using CreateSubscription_config [of "\<lparr>jetStreamContext = memJetStream\<rparr>" "''orders.created''" "''C''"
       SingleInstanceMessagesInOrder "\<lparr>broker = \<lparr>streams = [], consumers = []\<rparr>, calls = []\<rparr>"]
  by (simp add: CreateSubscription_eq Let_def getOrAddConsumer_def invoke_eq issued_def
       memJetStream_def Contains_def SingleInstanceMessagesInOrder_def Second_def)

section \<open>A failed reconciliation leaves no subscription\<close>

lemma FormatInt_0: "FormatInt 0 = ''0''"
  by (simp add: FormatInt_def FormatUint.simps)

lemma FormatInt_1: "FormatInt 1 = ''1''"
  by (simp add: FormatInt_def FormatUint.simps)

lemma getOrAddConsumer_no_pull:
  "filter isPullSubscribe (issued w (snd (getOrAddConsumer c streamName config w))) = []"
  using getOrAddConsumer_calls [of w c streamName config] by auto

text \<open>
  C6. When \<open>getOrAddConsumer\<close> fails, for whatever reason (a drift, a failed lookup, a
  failed creation), \<open>CreateSubscription\<close> returns that very error and the state
  \<open>getOrAddConsumer\<close> left; no subscription is returned and \<open>PullSubscribe\<close> is not among
  the calls made.
\<close>

theorem CreateSubscription_stops_on_error:
  assumes "Split subject (CHR ''.'') = streamName # rest"
    and "getOrAddConsumer c streamName
           (patchConsumerConfig
              \<lparr>Durable = consumerName, AckPolicy = AckExplicitPolicy,
               AckWait = Second * 30, MaxAckPending = 0\<rparr> mode) w = (Inl err, w1)"
  shows "CreateSubscription c subject consumerName mode w = Some (Inl err, w1)
     \<and> filter isPullSubscribe (issued w w1) = []"
proof
  show "CreateSubscription c subject consumerName mode w = Some (Inl err, w1)"
    using assms by (simp add: CreateSubscription_def)
  show "filter isPullSubscribe (issued w w1) = []"
    using getOrAddConsumer_no_pull [of w c streamName
           "patchConsumerConfig
              \<lparr>Durable = consumerName, AckPolicy = AckExplicitPolicy,
               AckWait = Second * 30, MaxAckPending = 0\<rparr> mode"] assms(2)
    by simp
qed

theorem CreateSubscription_stops_on_error_witness:
  "Split ''orders.created'' (CHR ''.'') = ''orders'' # [''created'']
   \<and> getOrAddConsumer \<lparr>jetStreamContext = memJetStream\<rparr> ''orders''
        (patchConsumerConfig
           \<lparr>Durable = ''C'', AckPolicy = AckExplicitPolicy,
            AckWait = Second * 30, MaxAckPending = 0\<rparr> SingleInstanceMessagesInOrder)
        \<lparr>broker = \<lparr>streams = [], consumers = [((''orders'', ''C''),
            \<lparr>ConsumerInfo.Config = \<lparr>Durable = ''C'', AckPolicy = AckExplicitPolicy,
               AckWait = 30000000000, MaxAckPending = 0\<rparr>\<rparr>)]\<rparr>, calls = []\<rparr>
      = (Inl (ErrorString ''consumer C SubscriptionMode has changed. Please use the existing SubscriptionMode=0 or delete consumer''),
         \<lparr>broker = \<lparr>streams = [], consumers = [((''orders'', ''C''),
            \<lparr>ConsumerInfo.Config = \<lparr>Durable = ''C'', AckPolicy = AckExplicitPolicy,
               AckWait = 30000000000, MaxAckPending = 0\<rparr>\<rparr>)]\<rparr>,
          calls = [ConsumerInfoCall ''orders'' ''C'']\<rparr>)
   \<and> CreateSubscription \<lparr>jetStreamContext = memJetStream\<rparr> ''orders.created'' ''C''
        SingleInstanceMessagesInOrder
        \<lparr>broker = \<lparr>streams = [], consumers = [((''orders'', ''C''),
            \<lparr>ConsumerInfo.Config = \<lparr>Durable = ''C'', AckPolicy = AckExplicitPolicy,
               AckWait = 30000000000, MaxAckPending = 0\<rparr>\<rparr>)]\<rparr>, calls = []\<rparr>
      = Some (Inl (ErrorString ''consumer C SubscriptionMode has changed. Please use the existing SubscriptionMode=0 or delete consumer''),
         \<lparr>broker = \<lparr>streams = [], consumers = [((''orders'', ''C''),
            \<lparr>ConsumerInfo.Config = \<lparr>Durable = ''C'', AckPolicy = AckExplicitPolicy,
               AckWait = 30000000000, MaxAckPending = 0\<rparr>\<rparr>)]\<rparr>,
          calls = [ConsumerInfoCall ''orders'' ''C'']\<rparr>)"
proof -
  have split: "Split ''orders.created'' (CHR ''.'') = ''orders'' # [''created'']"
    by (simp add: Split.simps)
  have fail: "getOrAddConsumer \<lparr>jetStreamContext = memJetStream\<rparr> ''orders''
        (patchConsumerConfig
           \<lparr>Durable = ''C'', AckPolicy = AckExplicitPolicy,
            AckWait = Second * 30, MaxAckPending = 0\<rparr> SingleInstanceMessagesInOrder)
        \<lparr>broker = \<lparr>streams = [], consumers = [((''orders'', ''C''),
            \<lparr>ConsumerInfo.Config = \<lparr>Durable = ''C'', AckPolicy = AckExplicitPolicy,
               AckWait = 30000000000, MaxAckPending = 0\<rparr>\<rparr>)]\<rparr>, calls = []\<rparr>
      = (Inl (ErrorString ''consumer C SubscriptionMode has changed. Please use the existing SubscriptionMode=0 or delete consumer''),
         \<lparr>broker = \<lparr>streams = [], consumers = [((''orders'', ''C''),
            \<lparr>ConsumerInfo.Config = \<lparr>Durable = ''C'', AckPolicy = AckExplicitPolicy,
               AckWait = 30000000000, MaxAckPending = 0\<rparr>\<rparr>)]\<rparr>,
          calls = [ConsumerInfoCall ''orders'' ''C'']\<rparr>)"
    by (simp add: getOrAddConsumer_def invoke_eq memJetStream_def patchConsumerConfig_def
        MultipleInstances_def SingleInstanceMessagesInOrder_def FormatInt_0)
  show ?thesis
    using split fail CreateSubscription_stops_on_error [OF split fail]
    by simp
qed

section \<open>Lookups: absent, or failed\<close>

lemma GetOrAddStream_lookup_failed:
  assumes "StreamInfo (jetStreamContext c) (Name streamConfig) (broker w) = (Inl err, b1)"
    and "err \<noteq> ErrStreamNotFound"
  shows "GetOrAddStream c streamConfig w =
     (Inl (WrapError (''NATS streamInfo-info could not be fetched: '' @ Error err) err),
      \<lparr>broker = b1, calls = calls w @ [StreamInfoCall (Name streamConfig)]\<rparr>)"
  using assms by (simp add: GetOrAddStream_def invoke_eq)

lemma GetOrAddStream_not_found:
  assumes "StreamInfo (jetStreamContext c) (Name streamConfig) (broker w) = (Inl ErrStreamNotFound, b1)"
    and "AddStream (jetStreamContext c) streamConfig b1 = (r, b2)"
  shows "GetOrAddStream c streamConfig w =
     (case r of
        Inl err2 \<Rightarrow> Inl (WrapError (''streamInfo '' @ Name streamConfig
                       @ '' could not be created: '' @ Error err2) err2)
      | Inr streamInfo \<Rightarrow> Inr streamInfo,
      \<lparr>broker = b2, calls = calls w @ [StreamInfoCall (Name streamConfig),
                                       AddStreamCall streamConfig]\<rparr>)"
  using assms by (simp add: GetOrAddStream_def invoke_eq split: sum.splits)

text \<open>
  C5. The consumer lookup and the stream lookup tell "not found" from any other error.
  \<^item> A consumer lookup whose error message does not contain \<open>consumer not found\<close> makes
    \<open>getOrAddConsumer\<close> fail with that error, after the lookup alone: no \<open>AddConsumer\<close>.
  \<^item> A consumer lookup whose error message contains \<open>consumer not found\<close> is followed by
    one \<open>AddConsumer\<close> with the requested configuration, whose consumer is the result
    (or whose error, wrapped with the consumer and stream names).
  \<^item> A stream lookup with an error other than \<open>nats.ErrStreamNotFound\<close> makes
    \<open>GetOrAddStream\<close> fail with an error that wraps that error, after the lookup alone:
    no \<open>AddStream\<close>.
  \<^item> A stream lookup with \<open>nats.ErrStreamNotFound\<close> is followed by one \<open>AddStream\<close> with
    the requested configuration, whose stream is the result (or whose error, wrapped
    with the stream name).
\<close>

theorem lookup_not_found_or_failed:
  "(ConsumerInfo (jetStreamContext c) streamName (Durable consumerConfig) (broker w) = (Inl err, b1)
      \<and> \<not> Contains (Error err) ''consumer not found''
    \<longrightarrow> getOrAddConsumer c streamName consumerConfig w =
          (Inl err, \<lparr>broker = b1,
                      calls = calls w @ [ConsumerInfoCall streamName (Durable consumerConfig)]\<rparr>))
   \<and> (ConsumerInfo (jetStreamContext c) streamName (Durable consumerConfig) (broker w) = (Inl err, b1)
      \<and> Contains (Error err) ''consumer not found''
      \<and> AddConsumer (jetStreamContext c) streamName consumerConfig b1 = (r, b2)
    \<longrightarrow> getOrAddConsumer c streamName consumerConfig w =
          (case r of
             Inl err2 \<Rightarrow> Inl (WrapError (''consumer '' @ Durable consumerConfig
                            @ '' could not be added to stream '' @ streamName
                            @ '': '' @ Error err2) err2)
           | Inr ci \<Rightarrow> Inr ci,
           \<lparr>broker = b2,
            calls = calls w @ [ConsumerInfoCall streamName (Durable consumerConfig),
                               AddConsumerCall streamName consumerConfig]\<rparr>))
   \<and> (StreamInfo (jetStreamContext c) (Name streamConfig) (broker w) = (Inl serr, sb1)
      \<and> serr \<noteq> ErrStreamNotFound
    \<longrightarrow> GetOrAddStream c streamConfig w =
          (Inl (WrapError (''NATS streamInfo-info could not be fetched: '' @ Error serr) serr),
           \<lparr>broker = sb1, calls = calls w @ [StreamInfoCall (Name streamConfig)]\<rparr>)
        \<and> Unwrap (WrapError (''NATS streamInfo-info could not be fetched: '' @ Error serr) serr)
            = Some serr)
   \<and> (StreamInfo (jetStreamContext c) (Name streamConfig) (broker w) = (Inl ErrStreamNotFound, sb1)
      \<and> AddStream (jetStreamContext c) streamConfig sb1 = (sr, sb2)
    \<longrightarrow> GetOrAddStream c streamConfig w =
          (case sr of
             Inl err2 \<Rightarrow> Inl (WrapError (''streamInfo '' @ Name streamConfig
                            @ '' could not be created: '' @ Error err2) err2)
           | Inr streamInfo \<Rightarrow> Inr streamInfo,
           \<lparr>broker = sb2,
            calls = calls w @ [StreamInfoCall (Name streamConfig), AddStreamCall streamConfig]\<rparr>))"
  using getOrAddConsumer_lookup_failed [of c streamName consumerConfig w err b1]
    getOrAddConsumer_not_found [of c streamName consumerConfig w err b1 r b2]
    GetOrAddStream_lookup_failed [of c streamConfig w serr sb1]
    GetOrAddStream_not_found [of c streamConfig w sb1 sr sb2]
  by simp

theorem lookup_not_found_or_failed_witness:
  "ConsumerInfo downJetStream ''orders'' ''C'' () = (Inl (ErrorString ''nats: timeout''), ())
   \<and> \<not> Contains (Error (ErrorString ''nats: timeout'')) ''consumer not found''
   \<and> getOrAddConsumer \<lparr>jetStreamContext = downJetStream\<rparr> ''orders''
         \<lparr>Durable = ''C'', AckPolicy = AckExplicitPolicy, AckWait = 30000000000,
          MaxAckPending = 0\<rparr> \<lparr>broker = (), calls = []\<rparr>
       = (Inl (ErrorString ''nats: timeout''),
          \<lparr>broker = (), calls = [ConsumerInfoCall ''orders'' ''C'']\<rparr>)
   \<and> StreamInfo downJetStream ''orders'' () = (Inl (ErrorString ''nats: timeout''), ())
   \<and> ErrorString ''nats: timeout'' \<noteq> ErrStreamNotFound
   \<and> GetOrAddStream \<lparr>jetStreamContext = downJetStream\<rparr> \<lparr>Name = ''orders''\<rparr>
         \<lparr>broker = (), calls = []\<rparr>
       = (Inl (WrapError ''NATS streamInfo-info could not be fetched: nats: timeout''
                 (ErrorString ''nats: timeout'')),
          \<lparr>broker = (), calls = [StreamInfoCall ''orders'']\<rparr>)
   \<and> ConsumerInfo memJetStream ''orders'' ''C'' \<lparr>streams = [], consumers = []\<rparr>
       = (Inl (ErrorString ''nats: consumer not found''), \<lparr>streams = [], consumers = []\<rparr>)
   \<and> Contains (Error (ErrorString ''nats: consumer not found'')) ''consumer not found''
   \<and> getOrAddConsumer \<lparr>jetStreamContext = memJetStream\<rparr> ''orders''
         \<lparr>Durable = ''C'', AckPolicy = AckExplicitPolicy, AckWait = 30000000000,
          MaxAckPending = 0\<rparr> \<lparr>broker = \<lparr>streams = [], consumers = []\<rparr>, calls = []\<rparr>
       = (Inr \<lparr>ConsumerInfo.Config = \<lparr>Durable = ''C'', AckPolicy = AckExplicitPolicy,
                  AckWait = 30000000000, MaxAckPending = 0\<rparr>\<rparr>,
          \<lparr>broker = \<lparr>streams = [], consumers = [((''orders'', ''C''),
               \<lparr>ConsumerInfo.Config = \<lparr>Durable = ''C'', AckPolicy = AckExplicitPolicy,
                  AckWait = 30000000000, MaxAckPending = 0\<rparr>\<rparr>)]\<rparr>,
           calls = [ConsumerInfoCall ''orders'' ''C'',
                    AddConsumerCall ''orders'' \<lparr>Durable = ''C'', AckPolicy = AckExplicitPolicy,
                      AckWait = 30000000000, MaxAckPending = 0\<rparr>]\<rparr>)
   \<and> StreamInfo memJetStream ''orders'' \<lparr>streams = [], consumers = []\<rparr>
       = (Inl ErrStreamNotFound, \<lparr>streams = [], consumers = []\<rparr>)
   \<and> GetOrAddStream \<lparr>jetStreamContext = memJetStream\<rparr> \<lparr>Name = ''orders''\<rparr>
         \<lparr>broker = \<lparr>streams = [], consumers = []\<rparr>, calls = []\<rparr>
       = (Inr \<lparr>StreamInfo.Config = \<lparr>Name = ''orders''\<rparr>\<rparr>,
          \<lparr>broker = \<lparr>streams = [(''orders'', \<lparr>StreamInfo.Config = \<lparr>Name = ''orders''\<rparr>\<rparr>)],
                      consumers = []\<rparr>,
           calls = [StreamInfoCall ''orders'', AddStreamCall \<lparr>Name = ''orders''\<rparr>]\<rparr>)"
  using lookup_not_found_or_failed
      [of "\<lparr>jetStreamContext = downJetStream\<rparr>" "''orders''"
          "\<lparr>Durable = ''C'', AckPolicy = AckExplicitPolicy, AckWait = 30000000000,
            MaxAckPending = 0\<rparr>" "\<lparr>broker = (), calls = []\<rparr>"
          "ErrorString ''nats: timeout''" "()" "Inl (ErrorString ''nats: timeout'')" "()"
          "\<lparr>Name = ''orders''\<rparr>" "ErrorString ''nats: timeout''" "()"
          "Inl (ErrorString ''nats: timeout'')" "()"]
    lookup_not_found_or_failed
      [of "\<lparr>jetStreamContext = memJetStream\<rparr>" "''orders''"
          "\<lparr>Durable = ''C'', AckPolicy = AckExplicitPolicy, AckWait = 30000000000,
            MaxAckPending = 0\<rparr>" "\<lparr>broker = \<lparr>streams = [], consumers = []\<rparr>, calls = []\<rparr>"
          "ErrorString ''nats: consumer not found''" "\<lparr>streams = [], consumers = []\<rparr>"
          "Inr \<lparr>ConsumerInfo.Config = \<lparr>Durable = ''C'', AckPolicy = AckExplicitPolicy,
                  AckWait = 30000000000, MaxAckPending = 0\<rparr>\<rparr>"
          "\<lparr>streams = [], consumers = [((''orders'', ''C''),
               \<lparr>ConsumerInfo.Config = \<lparr>Durable = ''C'', AckPolicy = AckExplicitPolicy,
                  AckWait = 30000000000, MaxAckPending = 0\<rparr>\<rparr>)]\<rparr>"
          "\<lparr>Name = ''orders''\<rparr>" "ErrStreamNotFound" "\<lparr>streams = [], consumers = []\<rparr>"
          "Inr \<lparr>StreamInfo.Config = \<lparr>Name = ''orders''\<rparr>\<rparr>"
          "\<lparr>streams = [(''orders'', \<lparr>StreamInfo.Config = \<lparr>Name = ''orders''\<rparr>\<rparr>)],
                      consumers = []\<rparr>"]
  by (simp add: downJetStream_def memJetStream_def Contains_def)

section \<open>Configuration drift\<close>

lemma drift_message_says_changed:
  "Contains (''consumer '' @ name @ '' SubscriptionMode has changed. ''
            @ ''Please use the existing SubscriptionMode='' @ shown @ '' or delete consumer'')
     ''SubscriptionMode has changed''"
proof -
  have "''consumer '' @ name @ '' SubscriptionMode has changed. ''
            @ ''Please use the existing SubscriptionMode='' @ shown @ '' or delete consumer''
      = (''consumer '' @ name @ '' '') @ ''SubscriptionMode has changed''
          @ (''. Please use the existing SubscriptionMode='' @ shown @ '' or delete consumer'')"
    by simp
  then show ?thesis
    unfolding Contains_sublist sublist_def by blast
qed

text \<open>
  C1. When the lookup finds a consumer whose stored \<open>MaxAckPending\<close> differs from the
  value \<open>patchConsumerConfig\<close> sets for the requested mode, \<open>getOrAddConsumer\<close> returns an
  error saying that the subscription mode has changed. The lookup is the only call it
  makes: the broker is left in the state the lookup left it in, and no \<open>AddConsumer\<close>
  is issued, so nothing overwrites the stored configuration.
\<close>

theorem getOrAddConsumer_drift:
  assumes "ConsumerInfo (jetStreamContext c) streamName (Durable config) (broker w) = (Inr ci, b1)"
    and "MaxAckPending (ConsumerInfo.Config ci) \<noteq> MaxAckPending (patchConsumerConfig config mode)"
  shows "\<exists>err. getOrAddConsumer c streamName (patchConsumerConfig config mode) w =
            (Inl err, \<lparr>broker = b1,
                        calls = calls w @ [ConsumerInfoCall streamName (Durable config)]\<rparr>)
          \<and> Contains (Error err) ''SubscriptionMode has changed''
          \<and> filter isAddConsumer
               (issued w (snd (getOrAddConsumer c streamName (patchConsumerConfig config mode) w)))
             = []"
proof -
  let ?config = "patchConsumerConfig config mode"
  let ?msg = "''consumer '' @ Durable ?config @ '' SubscriptionMode has changed. ''
                @ ''Please use the existing SubscriptionMode=''
                @ FormatInt (MaxAckPending (ConsumerInfo.Config ci)) @ '' or delete consumer''"
  have lookup: "ConsumerInfo (jetStreamContext c) streamName (Durable ?config) (broker w)
                  = (Inr ci, b1)"
    using assms(1) by (simp add: patch_Durable)
  have run: "getOrAddConsumer c streamName ?config w =
               (Inl (ErrorString ?msg),
                \<lparr>broker = b1,
                 calls = calls w @ [ConsumerInfoCall streamName (Durable ?config)]\<rparr>)"
    using getOrAddConsumer_found [OF lookup] assms(2) by simp
  have says: "Contains (Error (ErrorString ?msg)) ''SubscriptionMode has changed''"
    unfolding Error.simps by (rule drift_message_says_changed)
  have none: "filter isAddConsumer (issued w (snd (getOrAddConsumer c streamName ?config w))) = []"
    unfolding run by (simp add: issued_def)
  from run have "getOrAddConsumer c streamName ?config w =
               (Inl (ErrorString ?msg),
                \<lparr>broker = b1, calls = calls w @ [ConsumerInfoCall streamName (Durable config)]\<rparr>)"
    by (simp only: patch_Durable)
  with says none show ?thesis
    by blast
qed

theorem getOrAddConsumer_drift_witness:
  "ConsumerInfo memJetStream ''orders'' ''C''
      \<lparr>streams = [], consumers = [((''orders'', ''C''),
          \<lparr>ConsumerInfo.Config = \<lparr>Durable = ''C'', AckPolicy = AckExplicitPolicy,
             AckWait = 30000000000, MaxAckPending = 0\<rparr>\<rparr>)]\<rparr>
     = (Inr \<lparr>ConsumerInfo.Config = \<lparr>Durable = ''C'', AckPolicy = AckExplicitPolicy,
             AckWait = 30000000000, MaxAckPending = 0\<rparr>\<rparr>,
        \<lparr>streams = [], consumers = [((''orders'', ''C''),
          \<lparr>ConsumerInfo.Config = \<lparr>Durable = ''C'', AckPolicy = AckExplicitPolicy,
             AckWait = 30000000000, MaxAckPending = 0\<rparr>\<rparr>)]\<rparr>)
   \<and> (0 :: int) \<noteq> MaxAckPending (patchConsumerConfig
          \<lparr>Durable = ''C'', AckPolicy = AckExplicitPolicy, AckWait = 30000000000,
           MaxAckPending = 0\<rparr> SingleInstanceMessagesInOrder)
   \<and> getOrAddConsumer \<lparr>jetStreamContext = memJetStream\<rparr> ''orders''
        (patchConsumerConfig
          \<lparr>Durable = ''C'', AckPolicy = AckExplicitPolicy, AckWait = 30000000000,
           MaxAckPending = 0\<rparr> SingleInstanceMessagesInOrder)
        \<lparr>broker = \<lparr>streams = [], consumers = [((''orders'', ''C''),
            \<lparr>ConsumerInfo.Config = \<lparr>Durable = ''C'', AckPolicy = AckExplicitPolicy,
               AckWait = 30000000000, MaxAckPending = 0\<rparr>\<rparr>)]\<rparr>, calls = []\<rparr>
      = (Inl (ErrorString ''consumer C SubscriptionMode has changed. Please use the existing SubscriptionMode=0 or delete consumer''),
         \<lparr>broker = \<lparr>streams = [], consumers = [((''orders'', ''C''),
            \<lparr>ConsumerInfo.Config = \<lparr>Durable = ''C'', AckPolicy = AckExplicitPolicy,
               AckWait = 30000000000, MaxAckPending = 0\<rparr>\<rparr>)]\<rparr>,
          calls = [ConsumerInfoCall ''orders'' ''C'']\<rparr>)"
proof -
  let ?stored = "\<lparr>ConsumerInfo.Config = \<lparr>Durable = ''C'', AckPolicy = AckExplicitPolicy,
             AckWait = 30000000000, MaxAckPending = 0\<rparr>\<rparr>"
  let ?b = "\<lparr>streams = [], consumers = [((''orders'', ''C''), ?stored)]\<rparr>"
  let ?config = "\<lparr>Durable = ''C'', AckPolicy = AckExplicitPolicy, AckWait = 30000000000,
           MaxAckPending = 0\<rparr>"
  have found: "ConsumerInfo (jetStreamContext \<lparr>jetStreamContext = memJetStream\<rparr>) ''orders''
       (Durable ?config) (broker \<lparr>broker = ?b, calls = []\<rparr>) = (Inr ?stored, ?b)"
    by (simp add: memJetStream_def)
  have differs: "MaxAckPending (ConsumerInfo.Config ?stored)
       \<noteq> MaxAckPending (patchConsumerConfig ?config SingleInstanceMessagesInOrder)"
    by (simp add: patch_MaxAckPending)
  show ?thesis
    using found differs getOrAddConsumer_drift [OF found differs]
    by (simp add: getOrAddConsumer_def invoke_eq patch_MaxAckPending patch_Durable
         FormatInt_0 memJetStream_def)
qed

text \<open>
  The drift error as the claim C4 describes it would name the requested mode. It does
  not: for the consumer \<open>C\<close> stored with \<open>MaxAckPending = 1\<close> and the requested mode
  \<open>MultipleInstances\<close>, the message contains neither the number of the requested mode
  nor its name, and the request of mode \<open>2\<close> gets the very same error.
\<close>

theorem drift_error_omits_requested_mode:
  "getOrAddConsumer \<lparr>jetStreamContext = memJetStream\<rparr> ''orders''
        (patchConsumerConfig
          \<lparr>Durable = ''C'', AckPolicy = AckExplicitPolicy, AckWait = 30000000000,
           MaxAckPending = 0\<rparr> MultipleInstances)
        \<lparr>broker = \<lparr>streams = [], consumers = [((''orders'', ''C''),
            \<lparr>ConsumerInfo.Config = \<lparr>Durable = ''C'', AckPolicy = AckExplicitPolicy,
               AckWait = 30000000000, MaxAckPending = 1\<rparr>\<rparr>)]\<rparr>, calls = []\<rparr>
      = (Inl (ErrorString ''consumer C SubscriptionMode has changed. Please use the existing SubscriptionMode=1 or delete consumer''),
         \<lparr>broker = \<lparr>streams = [], consumers = [((''orders'', ''C''),
            \<lparr>ConsumerInfo.Config = \<lparr>Durable = ''C'', AckPolicy = AckExplicitPolicy,
               AckWait = 30000000000, MaxAckPending = 1\<rparr>\<rparr>)]\<rparr>,
          calls = [ConsumerInfoCall ''orders'' ''C'']\<rparr>)
   \<and> \<not> Contains ''consumer C SubscriptionMode has changed. Please use the existing SubscriptionMode=1 or delete consumer''
          (FormatInt MultipleInstances)
   \<and> \<not> Contains ''consumer C SubscriptionMode has changed. Please use the existing SubscriptionMode=1 or delete consumer''
          ''MultipleInstances''
   \<and> getOrAddConsumer \<lparr>jetStreamContext = memJetStream\<rparr> ''orders''
        (patchConsumerConfig
          \<lparr>Durable = ''C'', AckPolicy = AckExplicitPolicy, AckWait = 30000000000,
           MaxAckPending = 0\<rparr> 2)
        \<lparr>broker = \<lparr>streams = [], consumers = [((''orders'', ''C''),
            \<lparr>ConsumerInfo.Config = \<lparr>Durable = ''C'', AckPolicy = AckExplicitPolicy,
               AckWait = 30000000000, MaxAckPending = 1\<rparr>\<rparr>)]\<rparr>, calls = []\<rparr>
      = (Inl (ErrorString ''consumer C SubscriptionMode has changed. Please use the existing SubscriptionMode=1 or delete consumer''),
         \<lparr>broker = \<lparr>streams = [], consumers = [((''orders'', ''C''),
            \<lparr>ConsumerInfo.Config = \<lparr>Durable = ''C'', AckPolicy = AckExplicitPolicy,
               AckWait = 30000000000, MaxAckPending = 1\<rparr>\<rparr>)]\<rparr>,
          calls = [ConsumerInfoCall ''orders'' ''C'']\<rparr>)"
  by (simp add: getOrAddConsumer_def invoke_eq patch_MaxAckPending patch_Durable
        FormatInt_0 FormatInt_1 memJetStream_def MultipleInstances_def
        SingleInstanceMessagesInOrder_def Contains_def)

text \<open>
  C4, amended. In every drift case the error message names the consumer and the mode
  read off the stored configuration: the stored \<open>MaxAckPending\<close> converted to a
  \<open>SubscriptionMode\<close> and printed as a number. For the stored values \<open>0\<close> and \<open>1\<close> that
  is the mode whose policy value is the stored value (\<open>0\<close> prints \<open>MultipleInstances\<close>,
  \<open>1\<close> prints \<open>SingleInstanceMessagesInOrder\<close>). The message is fixed by the consumer
  name and the stored value; the requested mode is not part of it.
\<close>

theorem getOrAddConsumer_drift_message:
  assumes "ConsumerInfo (jetStreamContext c) streamName (Durable config) (broker w) = (Inr ci, b1)"
    and "MaxAckPending (ConsumerInfo.Config ci) \<noteq> MaxAckPending (patchConsumerConfig config mode)"
  shows "fst (getOrAddConsumer c streamName (patchConsumerConfig config mode) w) =
           Inl (ErrorString
             (''consumer '' @ Durable config @ '' SubscriptionMode has changed. ''
                @ ''Please use the existing SubscriptionMode=''
                @ FormatInt (MaxAckPending (ConsumerInfo.Config ci)) @ '' or delete consumer''))
     \<and> (MaxAckPending (ConsumerInfo.Config ci) = 0 \<or> MaxAckPending (ConsumerInfo.Config ci) = 1
          \<longrightarrow> MaxAckPending (patchConsumerConfig config (MaxAckPending (ConsumerInfo.Config ci)))
                = MaxAckPending (ConsumerInfo.Config ci))
     \<and> FormatInt MultipleInstances = ''0''
     \<and> FormatInt SingleInstanceMessagesInOrder = ''1''"
proof -
  let ?config = "patchConsumerConfig config mode"
  have lookup: "ConsumerInfo (jetStreamContext c) streamName (Durable ?config) (broker w)
                  = (Inr ci, b1)"
    using assms(1) by (simp add: patch_Durable)
  have "fst (getOrAddConsumer c streamName ?config w) =
           Inl (ErrorString
             (''consumer '' @ Durable ?config @ '' SubscriptionMode has changed. ''
                @ ''Please use the existing SubscriptionMode=''
                @ FormatInt (MaxAckPending (ConsumerInfo.Config ci)) @ '' or delete consumer''))"
    using getOrAddConsumer_found [OF lookup] assms(2) by simp
  then have message: "fst (getOrAddConsumer c streamName ?config w) =
           Inl (ErrorString
             (''consumer '' @ Durable config @ '' SubscriptionMode has changed. ''
                @ ''Please use the existing SubscriptionMode=''
                @ FormatInt (MaxAckPending (ConsumerInfo.Config ci)) @ '' or delete consumer''))"
    by (simp only: patch_Durable)
  have inverse: "MaxAckPending (ConsumerInfo.Config ci) = 0 \<or> MaxAckPending (ConsumerInfo.Config ci) = 1
          \<longrightarrow> MaxAckPending (patchConsumerConfig config (MaxAckPending (ConsumerInfo.Config ci)))
                = MaxAckPending (ConsumerInfo.Config ci)"
    by (auto simp: patch_MaxAckPending SingleInstanceMessagesInOrder_def)
  show ?thesis
    using message inverse
    by (simp only: MultipleInstances_def SingleInstanceMessagesInOrder_def FormatInt_0 FormatInt_1
          simp_thms)
qed

theorem getOrAddConsumer_drift_message_witness:
  "ConsumerInfo memJetStream ''orders'' ''C''
      \<lparr>streams = [], consumers = [((''orders'', ''C''),
          \<lparr>ConsumerInfo.Config = \<lparr>Durable = ''C'', AckPolicy = AckExplicitPolicy,
             AckWait = 30000000000, MaxAckPending = 1\<rparr>\<rparr>)]\<rparr>
     = (Inr \<lparr>ConsumerInfo.Config = \<lparr>Durable = ''C'', AckPolicy = AckExplicitPolicy,
             AckWait = 30000000000, MaxAckPending = 1\<rparr>\<rparr>,
        \<lparr>streams = [], consumers = [((''orders'', ''C''),
          \<lparr>ConsumerInfo.Config = \<lparr>Durable = ''C'', AckPolicy = AckExplicitPolicy,
             AckWait = 30000000000, MaxAckPending = 1\<rparr>\<rparr>)]\<rparr>)
   \<and> (1 :: int) \<noteq> MaxAckPending (patchConsumerConfig
          \<lparr>Durable = ''C'', AckPolicy = AckExplicitPolicy, AckWait = 30000000000,
           MaxAckPending = 0\<rparr> MultipleInstances)
   \<and> fst (getOrAddConsumer \<lparr>jetStreamContext = memJetStream\<rparr> ''orders''
        (patchConsumerConfig
          \<lparr>Durable = ''C'', AckPolicy = AckExplicitPolicy, AckWait = 30000000000,
           MaxAckPending = 0\<rparr> MultipleInstances)
        \<lparr>broker = \<lparr>streams = [], consumers = [((''orders'', ''C''),
            \<lparr>ConsumerInfo.Config = \<lparr>Durable = ''C'', AckPolicy = AckExplicitPolicy,
               AckWait = 30000000000, MaxAckPending = 1\<rparr>\<rparr>)]\<rparr>, calls = []\<rparr>)
      = Inl (ErrorString ''consumer C SubscriptionMode has changed. Please use the existing SubscriptionMode=1 or delete consumer'')
   \<and> MaxAckPending (patchConsumerConfig
          \<lparr>Durable = ''C'', AckPolicy = AckExplicitPolicy, AckWait = 30000000000,
           MaxAckPending = 0\<rparr> 1) = 1"
proof -
  let ?stored = "\<lparr>ConsumerInfo.Config = \<lparr>Durable = ''C'', AckPolicy = AckExplicitPolicy,
             AckWait = 30000000000, MaxAckPending = 1\<rparr>\<rparr>"
  let ?b = "\<lparr>streams = [], consumers = [((''orders'', ''C''), ?stored)]\<rparr>"
  let ?config = "\<lparr>Durable = ''C'', AckPolicy = AckExplicitPolicy, AckWait = 30000000000,
           MaxAckPending = 0\<rparr>"
  have found: "ConsumerInfo (jetStreamContext \<lparr>jetStreamContext = memJetStream\<rparr>) ''orders''
       (Durable ?config) (broker \<lparr>broker = ?b, calls = []\<rparr>) = (Inr ?stored, ?b)"
    by (simp add: memJetStream_def)
  have differs: "MaxAckPending (ConsumerInfo.Config ?stored)
       \<noteq> MaxAckPending (patchConsumerConfig ?config MultipleInstances)"
    by (simp add: patch_MaxAckPending MultipleInstances_def SingleInstanceMessagesInOrder_def)
  show ?thesis
    using found differs getOrAddConsumer_drift_message [OF found differs]
    by (simp add: patch_MaxAckPending FormatInt_1 memJetStream_def MultipleInstances_def
          SingleInstanceMessagesInOrder_def)
qed

section \<open>Idempotent reuse\<close>






end
